theory Spec2Isabelle
  imports Main "HOL-Library.Word"
begin

unbundle bit_operations_syntax

section \<open>C types of the driver\<close>

text \<open>
  The driver is built for an STM32F4 (\<^verbatim>\<open>stm32f4xx_hal.h\<close>): \<^verbatim>\<open>char\<close> and
  \<^verbatim>\<open>uint8_t\<close> are 8 bits wide, \<^verbatim>\<open>uint16_t\<close> is 16 bits and \<^verbatim>\<open>int\<close> and
  \<^verbatim>\<open>uint32_t\<close> are 32 bits. On this target plain \<^verbatim>\<open>char\<close> is unsigned, so the
  integer promotion of a \<^verbatim>\<open>char\<close> to \<^verbatim>\<open>int\<close> is a zero extension, and the
  conversion of an \<^verbatim>\<open>int\<close> to \<^verbatim>\<open>char\<close> or \<^verbatim>\<open>uint8_t\<close> keeps the low 8 bits.
\<close>

type_synonym c_char = "8 word"
type_synonym uint8_t = "8 word"
type_synonym uint16_t = "16 word"
type_synonym uint32_t = "32 word"
type_synonym c_int = "32 word"

definition int_of_char :: "c_char \<Rightarrow> c_int" where
  "int_of_char c = ucast c"

definition char_of_int :: "c_int \<Rightarrow> c_char" where
  "char_of_int i = ucast i"

definition uint8_of_int :: "c_int \<Rightarrow> uint8_t" where
  "uint8_of_int i = ucast i"

section \<open>Constants of LCD\_I2C.h\<close>

definition SLAVE_ADDRESS_LCD :: c_int where "SLAVE_ADDRESS_LCD = 0x4E"
definition LCD_BUFFER_SIZE :: c_int where "LCD_BUFFER_SIZE = 4"
definition UPPER_BITS_MASK :: c_int where "UPPER_BITS_MASK = 0xF0"
definition TIMEOUT :: c_int where "TIMEOUT = 100"
definition EN_BIT_MASK :: c_int where "EN_BIT_MASK = 0x0C"
definition RS_EN_OFF_MASK :: c_int where "RS_EN_OFF_MASK = 0x08"
definition RS_EN_ON_MASK :: c_int where "RS_EN_ON_MASK = 0x0D"
definition RS_BIT_MASK :: c_int where "RS_BIT_MASK = 0x09"
definition LCD_CURSOR_ROW_FIRST :: c_int where "LCD_CURSOR_ROW_FIRST = 0x80"
definition LCD_CURSOR_ROW_SECOND :: c_int where "LCD_CURSOR_ROW_SECOND = 0xC0"
definition LCD_CLEAR_ROW_LENGTH :: c_int where "LCD_CLEAR_ROW_LENGTH = 16"
definition DELAY_50MS :: c_int where "DELAY_50MS = 40"
definition DELAY_5MS :: c_int where "DELAY_5MS = 5"
definition DELAY_1MS :: c_int where "DELAY_1MS = 1"
definition DELAY_10MS :: c_int where "DELAY_10MS = 10"
definition LCD_INIT_CMD_8BIT :: c_int where "LCD_INIT_CMD_8BIT = 0x30"
definition LCD_INIT_CMD_4BIT :: c_int where "LCD_INIT_CMD_4BIT = 0x20"
definition LCD_INIT_CMD_FUNCTION_SET :: c_int where "LCD_INIT_CMD_FUNCTION_SET = 0x28"
definition LCD_INIT_CMD_DISPLAY_OFF :: c_int where "LCD_INIT_CMD_DISPLAY_OFF = 0x08"
definition LCD_INIT_CMD_CLEAR_DISPLAY :: c_int where "LCD_INIT_CMD_CLEAR_DISPLAY = 0x01"
definition LCD_INIT_CMD_ENTRY_MODE_SET :: c_int where "LCD_INIT_CMD_ENTRY_MODE_SET = 0x06"
definition LCD_INIT_CMD_DISPLAY_ON :: c_int where "LCD_INIT_CMD_DISPLAY_ON = 0x0C"
definition LCD_MOVE_RIGHT :: c_int where "LCD_MOVE_RIGHT = 0x1C"
definition LCD_MOVE_LEFT :: c_int where "LCD_MOVE_LEFT = 0x18"

section \<open>The two collaborators: the I2C bus and the delay timer\<close>

text \<open>
  Modelled from the spec: the bus collaborator and the timing collaborator. The HAL that
  the driver calls is not part of the repository; the driver uses two of its functions,
  \<^verbatim>\<open>HAL_I2C_Master_Transmit (hi2c, DevAddress, pData, Size, Timeout)\<close>, a blocking
  transmission of bytes to an address that answers with success or failure (the HAL's
  status also tells a busy bus and a timeout apart), and \<^verbatim>\<open>HAL_Delay (ms)\<close>, a
  blocking sleep. The world the driver acts on is the history of the calls it has made
  to the two, together with the status the bus will answer to each transmission. The
  handle is always the one global \<^verbatim>\<open>hi2c2\<close>, so it is not recorded.
\<close>

datatype HAL_StatusTypeDef = HAL_OK | HAL_ERROR | HAL_BUSY | HAL_TIMEOUT

record transmission =
  DevAddress :: uint16_t
  pData :: "uint8_t list"
  Size :: uint16_t
  Timeout :: uint32_t

datatype event = Transmit transmission | Delay uint32_t

record world =
  bus_status :: "nat \<Rightarrow> HAL_StatusTypeDef"
  trace :: "event list"

definition transmissions :: "event list \<Rightarrow> transmission list" where
  "transmissions evs = concat (map (\<lambda>e. case e of Transmit t \<Rightarrow> [t] | Delay d \<Rightarrow> []) evs)"

definition delays :: "event list \<Rightarrow> uint32_t list" where
  "delays evs = concat (map (\<lambda>e. case e of Transmit t \<Rightarrow> [] | Delay d \<Rightarrow> [d]) evs)"

text \<open>
  Modelled from the spec: the transmission. The bus sends the first \<open>Size\<close> bytes of the
  buffer to the device and answers with the status of this transmission: the \<open>k\<close>-th
  transmission since the world began gets \<open>bus_status w k\<close>.
\<close>

definition HAL_I2C_Master_Transmit ::
  "uint16_t \<Rightarrow> uint8_t list \<Rightarrow> uint16_t \<Rightarrow> uint32_t \<Rightarrow> world \<Rightarrow> HAL_StatusTypeDef \<times> world" where
  "HAL_I2C_Master_Transmit dev_address p_data size' timeout w =
     (bus_status w (length (transmissions (trace w))),
      w\<lparr>trace := trace w @
         [Transmit \<lparr>DevAddress = dev_address, pData = take (unat size') p_data,
                    Size = size', Timeout = timeout\<rparr>]\<rparr>)"

text \<open>
  Modelled from the spec: the sleep, which only takes time.
\<close>

definition HAL_Delay :: "uint32_t \<Rightarrow> world \<Rightarrow> unit \<times> world" where
  "HAL_Delay ms w = ((), w\<lparr>trace := trace w @ [Delay ms]\<rparr>)"

section \<open>The driver, LCD\_I2C.c\<close>

text \<open>
  Every driver function is \<^verbatim>\<open>void\<close>: it returns \<open>()\<close> and the world it leaves.
\<close>

definition LCD_SEND_CMD :: "c_char \<Rightarrow> world \<Rightarrow> unit \<times> world" where
  "LCD_SEND_CMD cmd w =
     (let upper_data = char_of_int (int_of_char cmd AND UPPER_BITS_MASK);
          lower_data = char_of_int (push_bit (unat LCD_BUFFER_SIZE) (int_of_char cmd) AND UPPER_BITS_MASK);
          lcd_Buffer = [uint8_of_int (int_of_char upper_data OR EN_BIT_MASK),
                        uint8_of_int (int_of_char upper_data OR RS_EN_OFF_MASK),
                        uint8_of_int (int_of_char lower_data OR EN_BIT_MASK),
                        uint8_of_int (int_of_char lower_data OR RS_EN_OFF_MASK)];
          (status, w') = HAL_I2C_Master_Transmit (ucast SLAVE_ADDRESS_LCD) lcd_Buffer
                           (ucast LCD_BUFFER_SIZE) TIMEOUT w
      in ((), w'))"

definition LCD_SEND_DATA :: "c_char \<Rightarrow> world \<Rightarrow> unit \<times> world" where
  "LCD_SEND_DATA data w =
     (let upper_data = char_of_int (int_of_char data AND UPPER_BITS_MASK);
          lower_data = char_of_int (push_bit (unat LCD_BUFFER_SIZE) (int_of_char data) AND UPPER_BITS_MASK);
          lcd_Buffer = [uint8_of_int (int_of_char upper_data OR RS_EN_ON_MASK),
                        uint8_of_int (int_of_char upper_data OR RS_BIT_MASK),
                        uint8_of_int (int_of_char lower_data OR RS_EN_ON_MASK),
                        uint8_of_int (int_of_char lower_data OR RS_BIT_MASK)];
          (status, w') = HAL_I2C_Master_Transmit (ucast SLAVE_ADDRESS_LCD) lcd_Buffer
                           (ucast LCD_BUFFER_SIZE) TIMEOUT w
      in ((), w'))"

text \<open>
  \<^verbatim>\<open>LCD_CLEAR\<close>: the body of the \<^verbatim>\<open>for\<close> loop with its counter \<^verbatim>\<open>char i\<close>. The
  comparison promotes \<open>i\<close> to \<^verbatim>\<open>int\<close>; the character constant \<^verbatim>\<open>' '\<close> is the
  \<^verbatim>\<open>int\<close> 0x20, converted to the \<^verbatim>\<open>char\<close> parameter.
\<close>

function LCD_CLEAR_loop :: "c_char \<Rightarrow> world \<Rightarrow> unit \<times> world" where
  "LCD_CLEAR_loop i w =
     (if sint (int_of_char i) < sint LCD_CLEAR_ROW_LENGTH
      then LCD_CLEAR_loop (char_of_int (int_of_char i + 1))
             (snd (LCD_SEND_DATA (char_of_int 0x20) w))
      else ((), w))"
  by pat_completeness auto
termination
proof (relation "measure (\<lambda>(i, w). 16 - unat i)")
  show "wf (measure (\<lambda>(i, w). 16 - unat i))"
    by simp
next
  fix i :: c_char and w :: world
  assume go: "sint (int_of_char i) < sint LCD_CLEAR_ROW_LENGTH"
  have lt8: "uint i < 2 ^ 8"
    using uint_lt2p [of i] by simp
  have up: "uint (ucast i :: 32 word) = uint i"
    using lt8 by (simp add: unsigned_ucast_eq take_bit_int_eq_self_iff)
  have lo: "- (2 ^ 31) \<le> uint i"
    by (rule order_trans [of _ 0]) simp_all
  have hi: "uint i < 2 ^ 31"
    using lt8 by simp
  have "signed_take_bit 31 (uint i) = uint i"
    using lo hi by (rule signed_take_bit_int_eq_self)
  with up have "sint (int_of_char i) = uint i"
    by (simp add: int_of_char_def sint_uint)
  with go have "uint i < 16"
    by (simp add: LCD_CLEAR_ROW_LENGTH_def)
  then have lt: "unat i < 16"
    unfolding unat_eq_nat_uint by linarith
  have 1: "unat (ucast i :: 32 word) = unat i"
    using lt by (simp add: unsigned_ucast_eq take_bit_nat_eq_self_iff)
  have 2: "unat ((ucast i :: 32 word) + 1) = unat i + 1"
    using lt by (simp add: unat_word_ariths 1)
  have "unat (ucast ((ucast i :: 32 word) + 1) :: 8 word) = unat i + 1"
    using lt by (simp add: unsigned_ucast_eq [of "ucast i + 1"] 2 take_bit_nat_eq_self_iff)
  then have "unat (char_of_int (int_of_char i + 1)) = unat i + 1"
    by (simp add: char_of_int_def int_of_char_def)
  with lt show "((char_of_int (int_of_char i + 1), snd (LCD_SEND_DATA (char_of_int 0x20) w)), (i, w))
        \<in> measure (\<lambda>(i, w). 16 - unat i)"
    by simp
qed

declare LCD_CLEAR_loop.simps [simp del]

definition LCD_CLEAR :: "world \<Rightarrow> unit \<times> world" where
  "LCD_CLEAR w =
     (let (_, w) = LCD_SEND_CMD (char_of_int LCD_CURSOR_ROW_FIRST) w
      in LCD_CLEAR_loop 0 w)"

definition LCD_SET_CURSOR :: "c_int \<Rightarrow> c_int \<Rightarrow> world \<Rightarrow> unit \<times> world" where
  "LCD_SET_CURSOR row col w =
     (let col = (if row = 0 then col OR LCD_CURSOR_ROW_FIRST
                 else if row = 1 then col OR LCD_CURSOR_ROW_SECOND
                 else col)
      in LCD_SEND_CMD (char_of_int col) w)"

definition LCD_INIT :: "world \<Rightarrow> unit \<times> world" where
  "LCD_INIT w =
     (let (_, w) = HAL_Delay DELAY_50MS w;
          (_, w) = LCD_SEND_CMD (char_of_int LCD_INIT_CMD_8BIT) w;
          (_, w) = HAL_Delay DELAY_5MS w;
          (_, w) = LCD_SEND_CMD (char_of_int LCD_INIT_CMD_8BIT) w;
          (_, w) = HAL_Delay DELAY_1MS w;
          (_, w) = LCD_SEND_CMD (char_of_int LCD_INIT_CMD_8BIT) w;
          (_, w) = HAL_Delay DELAY_10MS w;
          (_, w) = LCD_SEND_CMD (char_of_int LCD_INIT_CMD_4BIT) w;
          (_, w) = HAL_Delay DELAY_10MS w;
          (_, w) = LCD_SEND_CMD (char_of_int LCD_INIT_CMD_FUNCTION_SET) w;
          (_, w) = HAL_Delay DELAY_1MS w;
          (_, w) = LCD_SEND_CMD (char_of_int LCD_INIT_CMD_DISPLAY_OFF) w;
          (_, w) = HAL_Delay DELAY_1MS w;
          (_, w) = LCD_SEND_CMD (char_of_int LCD_INIT_CMD_CLEAR_DISPLAY) w;
          (_, w) = HAL_Delay DELAY_1MS w;
          (_, w) = HAL_Delay DELAY_1MS w;
          (_, w) = LCD_SEND_CMD (char_of_int LCD_INIT_CMD_ENTRY_MODE_SET) w;
          (_, w) = HAL_Delay DELAY_1MS w
      in LCD_SEND_CMD (char_of_int LCD_INIT_CMD_DISPLAY_ON) w)"

text \<open>
  \<^verbatim>\<open>LCD_SEND_STRING\<close>: the argument is the array \<^verbatim>\<open>str\<close> points into, from
  \<^verbatim>\<open>*str\<close> to the end of the array. Reading past the end of the array, which the loop
  does when the array holds no null byte, has no defined behaviour in C: \<open>None\<close>.
\<close>

fun LCD_SEND_STRING :: "c_char list \<Rightarrow> world \<Rightarrow> (unit \<times> world) option" where
  "LCD_SEND_STRING [] w = None"
| "LCD_SEND_STRING (c # str) w =
     (if c \<noteq> 0 then LCD_SEND_STRING str (snd (LCD_SEND_DATA c w)) else Some ((), w))"

definition LCD_SCROLL_LEFT :: "world \<Rightarrow> unit \<times> world" where
  "LCD_SCROLL_LEFT w = LCD_SEND_CMD (char_of_int LCD_MOVE_LEFT) w"

definition LCD_SCROLL_RIGHT :: "world \<Rightarrow> unit \<times> world" where
  "LCD_SCROLL_RIGHT w = LCD_SEND_CMD (char_of_int LCD_MOVE_RIGHT) w"

section \<open>Vocabulary of the properties\<close>

text \<open>
  The events an operation has issued: what the trace of the world it leaves holds beyond
  the trace of the world it started in.
\<close>

definition issued :: "world \<Rightarrow> world \<Rightarrow> event list" where
  "issued w w' = drop (length (trace w)) (trace w')"

text \<open>
  The frame of a payload byte \<open>b\<close> in 8-bit arithmetic: the upper nibble with the
  control mask \<open>en_on\<close>, then with \<open>en_off\<close>, then the lower nibble, moved up, with the
  same two masks. A command transmission uses the masks 0x0C and 0x08, a data
  transmission 0x0D and 0x09; both go to address 0x4E with size 4 and timeout 100.
\<close>

definition frame :: "uint8_t \<Rightarrow> uint8_t \<Rightarrow> c_char \<Rightarrow> uint8_t list" where
  "frame en_on en_off b =
     [(b AND 0xF0) OR en_on, (b AND 0xF0) OR en_off,
      (push_bit 4 b AND 0xF0) OR en_on, (push_bit 4 b AND 0xF0) OR en_off]"

definition command_tx :: "c_char \<Rightarrow> transmission" where
  "command_tx b = \<lparr>DevAddress = 0x4E, pData = frame 0x0C 0x08 b, Size = 4, Timeout = 100\<rparr>"

definition data_tx :: "c_char \<Rightarrow> transmission" where
  "data_tx b = \<lparr>DevAddress = 0x4E, pData = frame 0x0D 0x09 b, Size = 4, Timeout = 100\<rparr>"

text \<open>
  The enable line is bit 2 of a byte sent to the expander: it is the bit by which the mask
  0x0C (\<^verbatim>\<open>en=1, rs=0\<close> in the source) differs from 0x08 (\<^verbatim>\<open>en=0, rs=0\<close>) and 0x0D
  (\<^verbatim>\<open>en=1, rs=1\<close>) from 0x09 (\<^verbatim>\<open>en=0, rs=1\<close>). A transmission is framed for the
  payload byte \<open>b\<close> when its buffer is four bytes: the upper nibble of \<open>b\<close> with the
  enable line high, the same with the line low, then the lower nibble of \<open>b\<close>, in the
  upper four bits, with the line high and with the line low.
\<close>

definition en_bit :: "uint8_t \<Rightarrow> bool" where
  "en_bit x = bit x 2"

definition framed :: "transmission \<Rightarrow> c_char \<Rightarrow> bool" where
  "framed t b =
     (case pData t of
        [b0, b1, b2, b3] \<Rightarrow>
          b0 AND 0xF0 = b AND 0xF0 \<and> en_bit b0 \<and>
          b1 AND 0xF0 = b AND 0xF0 \<and> \<not> en_bit b1 \<and>
          b2 AND 0xF0 = push_bit 4 b \<and> en_bit b2 \<and>
          b3 AND 0xF0 = push_bit 4 b \<and> \<not> en_bit b3
      | _ \<Rightarrow> False)"

text \<open>
  The eight operations of the driver as one type, to speak of every operation at once.
  \<^verbatim>\<open>LCD_SEND_STRING\<close> is called with the array its argument points into.
\<close>

datatype driver_call =
    SEND_CMD c_char
  | SEND_DATA c_char
  | CLEAR
  | SET_CURSOR c_int c_int
  | INIT
  | SEND_STRING "c_char list"
  | SCROLL_LEFT
  | SCROLL_RIGHT

fun call :: "driver_call \<Rightarrow> world \<Rightarrow> (unit \<times> world) option" where
  "call (SEND_CMD cmd) w = Some (LCD_SEND_CMD cmd w)"
| "call (SEND_DATA data) w = Some (LCD_SEND_DATA data w)"
| "call CLEAR w = Some (LCD_CLEAR w)"
| "call (SET_CURSOR row col) w = Some (LCD_SET_CURSOR row col w)"
| "call INIT w = Some (LCD_INIT w)"
| "call (SEND_STRING str) w = LCD_SEND_STRING str w"
| "call SCROLL_LEFT w = Some (LCD_SCROLL_LEFT w)"
| "call SCROLL_RIGHT w = Some (LCD_SCROLL_RIGHT w)"

text \<open>
  Two worlds at power-on, for concrete runs: a bus that acknowledges every transmission,
  and a bus that fails the first transmission and acknowledges the later ones.
\<close>

definition bus_ok :: "nat \<Rightarrow> HAL_StatusTypeDef" where
  "bus_ok k = HAL_OK"

definition bus_fail_first :: "nat \<Rightarrow> HAL_StatusTypeDef" where
  "bus_fail_first k = (if k = 0 then HAL_ERROR else HAL_OK)"

definition w_ok :: world where
  "w_ok = \<lparr>bus_status = bus_ok, trace = []\<rparr>"

definition w_fail :: world where
  "w_fail = \<lparr>bus_status = bus_fail_first, trace = []\<rparr>"

section \<open>Unfolding the constants\<close>

lemmas lcd_constants =
  SLAVE_ADDRESS_LCD_def LCD_BUFFER_SIZE_def UPPER_BITS_MASK_def TIMEOUT_def
  EN_BIT_MASK_def RS_EN_OFF_MASK_def RS_EN_ON_MASK_def RS_BIT_MASK_def
  LCD_CURSOR_ROW_FIRST_def LCD_CURSOR_ROW_SECOND_def LCD_CLEAR_ROW_LENGTH_def
  DELAY_50MS_def DELAY_5MS_def DELAY_1MS_def DELAY_10MS_def
  LCD_INIT_CMD_8BIT_def LCD_INIT_CMD_4BIT_def LCD_INIT_CMD_FUNCTION_SET_def
  LCD_INIT_CMD_DISPLAY_OFF_def LCD_INIT_CMD_CLEAR_DISPLAY_def
  LCD_INIT_CMD_ENTRY_MODE_SET_def LCD_INIT_CMD_DISPLAY_ON_def
  LCD_MOVE_RIGHT_def LCD_MOVE_LEFT_def

section \<open>Conversions and frame bytes\<close>

lemma frame_upper:
  "uint8_of_int (int_of_char (char_of_int (int_of_char b AND 0xF0)) OR m)
     = (b AND 0xF0) OR ucast m"
  unfolding uint8_of_int_def int_of_char_def char_of_int_def
  by (rule bit_word_eqI) (auto simp add: bit_simps)

lemma frame_lower:
  "uint8_of_int (int_of_char (char_of_int (push_bit 4 (int_of_char b) AND 0xF0)) OR m)
     = (push_bit 4 b AND 0xF0) OR ucast m"
  unfolding uint8_of_int_def int_of_char_def char_of_int_def
  by (rule bit_word_eqI) (auto simp add: bit_simps)

lemma LCD_SEND_CMD_eq:
  "LCD_SEND_CMD b w = ((), w\<lparr>trace := trace w @ [Transmit (command_tx b)]\<rparr>)"
  by (simp add: LCD_SEND_CMD_def HAL_I2C_Master_Transmit_def Let_def frame_upper frame_lower
      command_tx_def frame_def lcd_constants)

lemma LCD_SEND_DATA_eq:
  "LCD_SEND_DATA b w = ((), w\<lparr>trace := trace w @ [Transmit (data_tx b)]\<rparr>)"
  by (simp add: LCD_SEND_DATA_def HAL_I2C_Master_Transmit_def Let_def frame_upper frame_lower
      data_tx_def frame_def lcd_constants)

lemma issued_append [simp]: "issued w (w\<lparr>trace := trace w @ evs\<rparr>) = evs"
  by (simp add: issued_def)

lemma transmissions_simps [simp]:
  "transmissions [] = []"
  "transmissions (Transmit t # evs) = t # transmissions evs"
  "transmissions (Delay d # evs) = transmissions evs"
  "transmissions (evs @ evs') = transmissions evs @ transmissions evs'"
  by (simp_all add: transmissions_def)

lemma delays_simps [simp]:
  "delays [] = []"
  "delays (Transmit t # evs) = delays evs"
  "delays (Delay d # evs) = d # delays evs"
  "delays (evs @ evs') = delays evs @ delays evs'"
  by (simp_all add: delays_def)

section \<open>Bits of a frame byte\<close>

lemma bit_15: "bit (15 :: int) n \<longleftrightarrow> n < 4"
proof -
  have e: "(15 :: int) = mask 4"
    by (simp add: mask_eq_exp_minus_1)
  show ?thesis
    unfolding e by (simp add: bit_mask_iff)
qed

lemma bit_240: "bit (240 :: int) n \<longleftrightarrow> 4 \<le> n \<and> n < 8"
proof -
  have e: "(240 :: int) = push_bit 4 (mask 4)"
    by (simp add: mask_eq_exp_minus_1 push_bit_eq_mult)
  show ?thesis
    unfolding e by (auto simp add: bit_push_bit_iff bit_mask_iff)
qed

lemma low_of_frame_byte: "((x AND 0xF0) OR m) AND 0x0F = m AND (0x0F :: uint8_t)"
proof -
  have "((x AND 0xF0) OR m) AND 0x0F = (x AND (0xF0 AND 0x0F)) OR (m AND 0x0F)"
    by (simp only: bit.conj_disj_distrib2 and.assoc)
  then show ?thesis by simp
qed

lemma high_of_frame_byte: "((x AND 0xF0) OR m) AND 0xF0 = (x AND 0xF0) OR (m AND (0xF0 :: uint8_t))"
proof -
  have "((x AND 0xF0) OR m) AND 0xF0 = (x AND (0xF0 AND 0xF0)) OR (m AND 0xF0)"
    by (simp only: bit.conj_disj_distrib2 and.assoc)
  then show ?thesis by simp
qed

lemma nibble_of_upper: "drop_bit 4 ((b AND 0xF0) OR m) = drop_bit 4 b OR drop_bit 4 (m :: uint8_t)"
  by (rule bit_word_eqI) (auto simp add: bit_simps bit_15 bit_240 dest: bit_imp_le_length)

lemma nibble_of_lower: "drop_bit 4 (push_bit 4 b) = b AND (0x0F :: uint8_t)"
  by (rule bit_word_eqI) (auto simp add: bit_simps bit_15 bit_240 dest: bit_imp_le_length)

lemma push_bit_4_upper: "push_bit 4 b AND 0xF0 = push_bit 4 (b :: uint8_t)"
  by (rule bit_word_eqI) (auto simp add: bit_simps bit_15 bit_240 dest: bit_imp_le_length)

lemma en_bit_frame_byte: "en_bit ((x AND 0xF0) OR m) = en_bit m"
proof -
  have "\<not> bit (0xF0 :: uint8_t) 2"
    by simp
  then show ?thesis
    by (simp add: en_bit_def bit_or_iff bit_and_iff)
qed

lemma frame_low_bits:
  "map (\<lambda>x. x AND 0x0F) (frame m1 m2 b) = [m1 AND 0x0F, m2 AND 0x0F, m1 AND 0x0F, m2 AND 0x0F]"
  unfolding frame_def by (simp only: list.map low_of_frame_byte)

lemma frame_nibbles:
  "map (drop_bit 4) (frame m1 m2 b) =
     [drop_bit 4 b OR drop_bit 4 m1, drop_bit 4 b OR drop_bit 4 m2,
      (b AND 0x0F) OR drop_bit 4 m1, (b AND 0x0F) OR drop_bit 4 m2]"
  unfolding frame_def by (simp only: list.map nibble_of_upper nibble_of_lower)

lemma framed_frame:
  assumes on: "en_bit m1" "m1 AND 0xF0 = 0" and off: "\<not> en_bit m2" "m2 AND 0xF0 = 0"
    and t: "pData t = frame m1 m2 b"
  shows "framed t b"
proof -
  have "((b AND 0xF0) OR m1) AND 0xF0 = b AND 0xF0" "((b AND 0xF0) OR m2) AND 0xF0 = b AND 0xF0"
    by (simp_all only: high_of_frame_byte on off or.right_neutral)
  moreover have "((push_bit 4 b AND 0xF0) OR m1) AND 0xF0 = push_bit 4 b"
    "((push_bit 4 b AND 0xF0) OR m2) AND 0xF0 = push_bit 4 b"
    by (simp_all only: high_of_frame_byte on off or.right_neutral) (simp_all only: push_bit_4_upper)
  ultimately show ?thesis
    unfolding framed_def t frame_def
    by (simp only: list.case en_bit_frame_byte on off simp_thms)
qed

lemma framed_command_tx: "framed (command_tx b) b"
  by (rule framed_frame [of "0x0C" "0x08"]) (simp_all add: en_bit_def command_tx_def)

lemma framed_data_tx: "framed (data_tx b) b"
  by (rule framed_frame [of "0x0D" "0x09"]) (simp_all add: en_bit_def data_tx_def)

section \<open>Signedness of char\<close>

text \<open>
  Were plain \<^verbatim>\<open>char\<close> signed, the promotions in \<^verbatim>\<open>LCD_SEND_CMD\<close> and
  \<^verbatim>\<open>LCD_SEND_DATA\<close> would extend the sign instead of adding zeros. With the shift taken
  on the two's complement bits, the bytes stored in the buffer are the same.
\<close>

lemma signed_char_upper:
  "(ucast ((scast (ucast ((scast b :: c_int) AND 0xF0) :: c_char) :: c_int) OR m) :: uint8_t)
     = (b AND 0xF0) OR ucast m"
  by (rule bit_word_eqI) (auto simp add: bit_simps bit_15 bit_240 dest: bit_imp_le_length)

lemma signed_char_lower:
  "(ucast ((scast (ucast (push_bit 4 (scast b :: c_int) AND 0xF0) :: c_char) :: c_int) OR m)
      :: uint8_t)
     = (push_bit 4 b AND 0xF0) OR ucast m"
  by (rule bit_word_eqI) (auto simp add: bit_simps bit_15 bit_240 dest: bit_imp_le_length)

section \<open>What each operation adds to the trace\<close>

lemma sint_int_of_char: "sint (int_of_char i) = uint i"
proof -
  have lt8: "uint i < 2 ^ 8"
    using uint_lt2p [of i] by simp
  have up: "uint (ucast i :: 32 word) = uint i"
    using lt8 by (simp add: unsigned_ucast_eq take_bit_int_eq_self_iff)
  have lo: "- (2 ^ 31) \<le> uint i"
    by (rule order_trans [of _ 0]) simp_all
  have hi: "uint i < 2 ^ 31"
    using lt8 by simp
  have "signed_take_bit 31 (uint i) = uint i"
    using lo hi by (rule signed_take_bit_int_eq_self)
  with up show ?thesis
    by (simp add: int_of_char_def sint_uint)
qed

lemma loop_guard: "sint (int_of_char i) < sint LCD_CLEAR_ROW_LENGTH \<longleftrightarrow> unat i < 16"
proof -
  have "sint (int_of_char i) < sint LCD_CLEAR_ROW_LENGTH \<longleftrightarrow> uint i < 16"
    by (simp add: sint_int_of_char LCD_CLEAR_ROW_LENGTH_def)
  also have "\<dots> \<longleftrightarrow> unat i < 16"
    unfolding unat_eq_nat_uint by linarith
  finally show ?thesis .
qed

lemma loop_next:
  assumes lt: "unat i < 16"
  shows "unat (char_of_int (int_of_char i + 1)) = Suc (unat i)"
proof -
  have 1: "unat (ucast i :: 32 word) = unat i"
    using lt by (simp add: unsigned_ucast_eq take_bit_nat_eq_self_iff)
  have 2: "unat ((ucast i :: 32 word) + 1) = unat i + 1"
    using lt by (simp add: unat_word_ariths 1)
  have "unat (ucast ((ucast i :: 32 word) + 1) :: 8 word) = unat i + 1"
    using lt by (simp add: unsigned_ucast_eq [of "ucast i + 1"] 2 take_bit_nat_eq_self_iff)
  then show ?thesis
    by (simp add: char_of_int_def int_of_char_def)
qed

lemma LCD_CLEAR_loop_eq:
  "unat i \<le> 16 \<Longrightarrow> LCD_CLEAR_loop i w =
     ((), w\<lparr>trace := trace w @ replicate (16 - unat i) (Transmit (data_tx 0x20))\<rparr>)"
proof (induction i w rule: LCD_CLEAR_loop.induct)
  case (1 i w)
  show ?case
  proof (cases "unat i < 16")
    case True
    then have n: "unat (char_of_int (int_of_char i + 1)) = Suc (unat i)"
      by (rule loop_next)
    have g: "sint (int_of_char i) < sint LCD_CLEAR_ROW_LENGTH"
      using True by (simp add: loop_guard)
    have r: "16 - unat i = Suc (16 - Suc (unat i))"
      using True by simp
    have "LCD_CLEAR_loop i w = LCD_CLEAR_loop (char_of_int (int_of_char i + 1))
             (snd (LCD_SEND_DATA (char_of_int 0x20) w))"
      using g by (subst LCD_CLEAR_loop.simps) simp
    also have "\<dots> = ((), (snd (LCD_SEND_DATA (char_of_int 0x20) w))
        \<lparr>trace := trace (snd (LCD_SEND_DATA (char_of_int 0x20) w))
           @ replicate (16 - Suc (unat i)) (Transmit (data_tx 0x20))\<rparr>)"
      using "1.IH" [OF g] True n by simp
    also have "\<dots> = ((), w\<lparr>trace := trace w @ replicate (16 - unat i) (Transmit (data_tx 0x20))\<rparr>)"
      by (simp add: LCD_SEND_DATA_eq r char_of_int_def)
    finally show ?thesis .
  next
    case False
    with "1.prems" have e: "unat i = 16" by simp
    have "\<not> sint (int_of_char i) < sint LCD_CLEAR_ROW_LENGTH"
      using False by (simp add: loop_guard)
    then have "LCD_CLEAR_loop i w = ((), w)"
      by (subst LCD_CLEAR_loop.simps) simp
    then show ?thesis by (simp add: e)
  qed
qed

lemma LCD_CLEAR_eq:
  "LCD_CLEAR w = ((), w\<lparr>trace := trace w @ Transmit (command_tx 0x80) # replicate 16 (Transmit (data_tx 0x20))\<rparr>)"
proof -
  have "unat (0 :: c_char) \<le> 16"
    by simp
  then have "LCD_CLEAR_loop 0 (snd (LCD_SEND_CMD (char_of_int LCD_CURSOR_ROW_FIRST) w)) =
      ((), w\<lparr>trace := trace w @ Transmit (command_tx 0x80) # replicate 16 (Transmit (data_tx 0x20))\<rparr>)"
    by (simp only: LCD_CLEAR_loop_eq) (simp add: LCD_SEND_CMD_eq LCD_CURSOR_ROW_FIRST_def char_of_int_def)
  then show ?thesis
    by (simp add: LCD_CLEAR_def split_def)
qed

lemma LCD_INIT_eq:
  "LCD_INIT w = ((), w\<lparr>trace := trace w @
     [Delay 40, Transmit (command_tx 0x30), Delay 5, Transmit (command_tx 0x30),
      Delay 1, Transmit (command_tx 0x30), Delay 10, Transmit (command_tx 0x20),
      Delay 10, Transmit (command_tx 0x28), Delay 1, Transmit (command_tx 0x08),
      Delay 1, Transmit (command_tx 0x01), Delay 1, Delay 1,
      Transmit (command_tx 0x06), Delay 1, Transmit (command_tx 0x0C)]\<rparr>)"
  by (simp add: LCD_INIT_def LCD_SEND_CMD_eq HAL_Delay_def lcd_constants char_of_int_def)

lemma LCD_SET_CURSOR_eq:
  "LCD_SET_CURSOR row col w = ((), w\<lparr>trace := trace w @ [Transmit (command_tx
      (char_of_int (if row = 0 then col OR 0x80 else if row = 1 then col OR 0xC0 else col)))]\<rparr>)"
  by (simp add: LCD_SET_CURSOR_def LCD_SEND_CMD_eq lcd_constants)

lemma LCD_SEND_STRING_eq:
  "0 \<notin> set cs \<Longrightarrow> LCD_SEND_STRING (cs @ 0 # rest) w =
     Some ((), w\<lparr>trace := trace w @ map (\<lambda>c. Transmit (data_tx c)) cs\<rparr>)"
  by (induction cs arbitrary: w) (auto simp add: LCD_SEND_DATA_eq)

lemma LCD_SEND_STRING_None:
  "0 \<notin> set cs \<Longrightarrow> LCD_SEND_STRING cs w = None"
  by (induction cs arbitrary: w) auto

lemma LCD_SCROLL_eq:
  "LCD_SCROLL_LEFT w = ((), w\<lparr>trace := trace w @ [Transmit (command_tx 0x18)]\<rparr>)"
  "LCD_SCROLL_RIGHT w = ((), w\<lparr>trace := trace w @ [Transmit (command_tx 0x1C)]\<rparr>)"
  by (simp_all add: LCD_SCROLL_LEFT_def LCD_SCROLL_RIGHT_def LCD_SEND_CMD_eq lcd_constants char_of_int_def)

section \<open>Every operation at once\<close>

lemma LCD_SEND_STRING_issues:
  "LCD_SEND_STRING str w = Some (r, w') \<Longrightarrow>
     \<exists>cs. w' = w\<lparr>trace := trace w @ map (\<lambda>c. Transmit (data_tx c)) cs\<rparr>"
proof (induction str arbitrary: w)
  case Nil
  then show ?case by simp
next
  case (Cons c str)
  show ?case
  proof (cases "c = 0")
    case True
    with Cons.prems have "w' = w\<lparr>trace := trace w @ map (\<lambda>c. Transmit (data_tx c)) []\<rparr>"
      by simp
    then show ?thesis ..
  next
    case False
    with Cons.prems have "LCD_SEND_STRING str (w\<lparr>trace := trace w @ [Transmit (data_tx c)]\<rparr>) = Some (r, w')"
      by (simp add: LCD_SEND_DATA_eq)
    from Cons.IH [OF this] obtain cs where
      "w' = w\<lparr>trace := trace w @ map (\<lambda>c. Transmit (data_tx c)) (c # cs)\<rparr>"
      by auto
    then show ?thesis ..
  qed
qed

lemma issuesI:
  "w' = w\<lparr>trace := trace w @ evs\<rparr> \<Longrightarrow>
   list_all (\<lambda>t. \<exists>b. t = command_tx b \<or> t = data_tx b) (transmissions evs) \<Longrightarrow>
   \<exists>evs. w' = w\<lparr>trace := trace w @ evs\<rparr>
     \<and> list_all (\<lambda>t. \<exists>b. t = command_tx b \<or> t = data_tx b) (transmissions evs)"
  by blast

lemma transmissions_replicate: "transmissions (replicate n (Transmit t)) = replicate n t"
  by (induction n) simp_all

lemma transmissions_data: "transmissions (map (\<lambda>c. Transmit (data_tx c)) cs) = map data_tx cs"
  by (induction cs) simp_all

lemma call_issues:
  assumes "call op w = Some (r, w')"
  shows "\<exists>evs. w' = w\<lparr>trace := trace w @ evs\<rparr>
     \<and> list_all (\<lambda>t. \<exists>b. t = command_tx b \<or> t = data_tx b) (transmissions evs)"
proof (cases op)
  case (SEND_CMD cmd)
  with assms have "w' = w\<lparr>trace := trace w @ [Transmit (command_tx cmd)]\<rparr>"
    by (simp add: LCD_SEND_CMD_eq)
  then show ?thesis
    by (rule issuesI) auto
next
  case (SEND_DATA data)
  with assms have "w' = w\<lparr>trace := trace w @ [Transmit (data_tx data)]\<rparr>"
    by (simp add: LCD_SEND_DATA_eq)
  then show ?thesis
    by (rule issuesI) auto
next
  case CLEAR
  with assms have "w' = w\<lparr>trace := trace w @
      Transmit (command_tx 0x80) # replicate 16 (Transmit (data_tx 0x20))\<rparr>"
    by (simp add: LCD_CLEAR_eq)
  then show ?thesis
    by (rule issuesI) (auto simp add: transmissions_replicate list_all_iff)
next
  case (SET_CURSOR row col)
  with assms have "w' = w\<lparr>trace := trace w @ [Transmit (command_tx
      (char_of_int (if row = 0 then col OR 0x80 else if row = 1 then col OR 0xC0 else col)))]\<rparr>"
    by (simp add: LCD_SET_CURSOR_eq)
  then show ?thesis
    by (rule issuesI) auto
next
  case INIT
  with assms have "w' = w\<lparr>trace := trace w @
     [Delay 40, Transmit (command_tx 0x30), Delay 5, Transmit (command_tx 0x30),
      Delay 1, Transmit (command_tx 0x30), Delay 10, Transmit (command_tx 0x20),
      Delay 10, Transmit (command_tx 0x28), Delay 1, Transmit (command_tx 0x08),
      Delay 1, Transmit (command_tx 0x01), Delay 1, Delay 1,
      Transmit (command_tx 0x06), Delay 1, Transmit (command_tx 0x0C)]\<rparr>"
    by (simp add: LCD_INIT_eq)
  then show ?thesis
    by (rule issuesI) auto
next
  case (SEND_STRING str)
  with assms obtain cs where "w' = w\<lparr>trace := trace w @ map (\<lambda>c. Transmit (data_tx c)) cs\<rparr>"
    using LCD_SEND_STRING_issues by fastforce
  then show ?thesis
    by (rule issuesI) (auto simp add: transmissions_data list_all_iff)
next
  case SCROLL_LEFT
  with assms have "w' = w\<lparr>trace := trace w @ [Transmit (command_tx 0x18)]\<rparr>"
    by (simp add: LCD_SCROLL_eq)
  then show ?thesis
    by (rule issuesI) auto
next
  case SCROLL_RIGHT
  with assms have "w' = w\<lparr>trace := trace w @ [Transmit (command_tx 0x1C)]\<rparr>"
    by (simp add: LCD_SCROLL_eq)
  then show ?thesis
    by (rule issuesI) auto
qed

lemma LCD_SEND_STRING_bus:
  "LCD_SEND_STRING str (w\<lparr>bus_status := f\<rparr>) =
     map_option (\<lambda>(r, w'). (r, w'\<lparr>bus_status := f\<rparr>)) (LCD_SEND_STRING str w)"
proof (induction str arbitrary: w)
  case Nil
  show ?case by simp
next
  case (Cons c str)
  have "snd (LCD_SEND_DATA c (w\<lparr>bus_status := f\<rparr>)) = (snd (LCD_SEND_DATA c w))\<lparr>bus_status := f\<rparr>"
    by (simp add: LCD_SEND_DATA_eq)
  then show ?case
    using Cons.IH [of "snd (LCD_SEND_DATA c w)"] by simp
qed

section \<open>Framing of commands and data\<close>

text \<open>
  Claim C1. For every byte \<open>b\<close> and whatever the bus answers, \<^verbatim>\<open>LCD_SEND_CMD (b)\<close>
  returns after adding exactly one transmission to the trace, of the four bytes
  \<open>(b & 0xF0) | 0x0C\<close>, \<open>(b & 0xF0) | 0x08\<close>, \<open>((b << 4) & 0xF0) | 0x0C\<close>,
  \<open>((b << 4) & 0xF0) | 0x08\<close> in this order, and \<^verbatim>\<open>LCD_SEND_DATA (b)\<close> exactly one of
  \<open>(b & 0xF0) | 0x0D\<close>, \<open>(b & 0xF0) | 0x09\<close>, \<open>((b << 4) & 0xF0) | 0x0D\<close>,
  \<open>((b << 4) & 0xF0) | 0x09\<close>.
\<close>

theorem C1_send_frames:
  "LCD_SEND_CMD b w =
     ((), w\<lparr>trace := trace w @
       [Transmit \<lparr>DevAddress = 0x4E,
          pData = [(b AND 0xF0) OR 0x0C, (b AND 0xF0) OR 0x08,
                   (push_bit 4 b AND 0xF0) OR 0x0C, (push_bit 4 b AND 0xF0) OR 0x08],
          Size = 4, Timeout = 100\<rparr>]\<rparr>)
   \<and> LCD_SEND_DATA b w =
     ((), w\<lparr>trace := trace w @
       [Transmit \<lparr>DevAddress = 0x4E,
          pData = [(b AND 0xF0) OR 0x0D, (b AND 0xF0) OR 0x09,
                   (push_bit 4 b AND 0xF0) OR 0x0D, (push_bit 4 b AND 0xF0) OR 0x09],
          Size = 4, Timeout = 100\<rparr>]\<rparr>)"
  by (simp add: LCD_SEND_CMD_eq LCD_SEND_DATA_eq command_tx_def data_tx_def frame_def)

text \<open>
  Claim C10. For every input byte \<open>b\<close>, the low four bits of the four bytes that
  \<^verbatim>\<open>LCD_SEND_CMD\<close> transmits are the control masks 0x0C, 0x08, 0x0C, 0x08, those of
  \<^verbatim>\<open>LCD_SEND_DATA\<close> are 0x0D, 0x09, 0x0D, 0x09, and the high four bits are the payload:
  the upper nibble of \<open>b\<close> in the first two bytes and the lower nibble of \<open>b\<close> in the last
  two. Payload and control bits never overlap.
\<close>

theorem C10_nibbles_disjoint:
  "map (map (\<lambda>x. x AND 0x0F) \<circ> pData) (transmissions (issued w (snd (LCD_SEND_CMD b w))))
     = [[0x0C, 0x08, 0x0C, 0x08]]
   \<and> map (map (drop_bit 4) \<circ> pData) (transmissions (issued w (snd (LCD_SEND_CMD b w))))
     = [[drop_bit 4 b, drop_bit 4 b, b AND 0x0F, b AND 0x0F]]
   \<and> map (map (\<lambda>x. x AND 0x0F) \<circ> pData) (transmissions (issued w (snd (LCD_SEND_DATA b w))))
     = [[0x0D, 0x09, 0x0D, 0x09]]
   \<and> map (map (drop_bit 4) \<circ> pData) (transmissions (issued w (snd (LCD_SEND_DATA b w))))
     = [[drop_bit 4 b, drop_bit 4 b, b AND 0x0F, b AND 0x0F]]"
  by (simp add: LCD_SEND_CMD_eq LCD_SEND_DATA_eq command_tx_def data_tx_def
      frame_low_bits frame_nibbles)

section \<open>Initialisation\<close>

text \<open>
  Claim C3. The events of \<^verbatim>\<open>LCD_INIT\<close>, in the order they happen, are a first wait,
  then the commands 0x30, 0x30, 0x30, 0x20, 0x28, 0x08, 0x01, 0x06, 0x0C in exactly
  this order, each command but the last followed by a wait (two waits after 0x01) before
  the next command. No command is omitted, added or reordered: the transmissions are
  these nine and nothing else. Every wait is longer than zero, so a wait longer than zero
  stands between every two consecutive commands.
\<close>

theorem C3_init_sequence:
  "issued w (snd (LCD_INIT w))
     = [Delay 40, Transmit (command_tx 0x30), Delay 5, Transmit (command_tx 0x30),
        Delay 1, Transmit (command_tx 0x30), Delay 10, Transmit (command_tx 0x20),
        Delay 10, Transmit (command_tx 0x28), Delay 1, Transmit (command_tx 0x08),
        Delay 1, Transmit (command_tx 0x01), Delay 1, Delay 1,
        Transmit (command_tx 0x06), Delay 1, Transmit (command_tx 0x0C)]
   \<and> transmissions (issued w (snd (LCD_INIT w)))
     = map command_tx [0x30, 0x30, 0x30, 0x20, 0x28, 0x08, 0x01, 0x06, 0x0C]
   \<and> list_all (\<lambda>d. 0 < d) (delays (issued w (snd (LCD_INIT w))))"
  by (simp add: LCD_INIT_eq)

text \<open>
  Claim C4. The claim has \<^verbatim>\<open>LCD_INIT\<close> wait 50 time units before its first command. The
  code waits \<^verbatim>\<open>DELAY_50MS\<close>, which the header defines as 40: the first seven events of
  \<^verbatim>\<open>LCD_INIT\<close> are a wait of 40, then the 8-bit-mode command three times, followed by
  waits of 5, 1 and 10.
\<close>

theorem C4_init_first_wait:
  "take 7 (issued w (snd (LCD_INIT w)))
     = [Delay 40, Transmit (command_tx 0x30), Delay 5, Transmit (command_tx 0x30), Delay 1,
        Transmit (command_tx 0x30), Delay 10]
   \<and> DELAY_50MS = 40"
  by (simp add: LCD_INIT_eq DELAY_50MS_def)

section \<open>Clearing, cursor, strings and scrolling\<close>

text \<open>
  Claim C5. \<^verbatim>\<open>LCD_CLEAR\<close> issues exactly 17 transmissions: the command 0x80, then
  sixteen times the data byte 0x20 (a space), whatever the world it is called in.
\<close>

theorem C5_clear:
  "LCD_CLEAR w =
     ((), w\<lparr>trace := trace w @
        Transmit (command_tx 0x80) # replicate 16 (Transmit (data_tx 0x20))\<rparr>)
   \<and> length (transmissions (issued w (snd (LCD_CLEAR w)))) = 17"
proof -
  have "transmissions (replicate n (Transmit t)) = replicate n t" for n t
    by (induction n) simp_all
  then show ?thesis
    by (simp add: LCD_CLEAR_eq)
qed

text \<open>
  Claim C6. For every column \<open>c\<close>, \<^verbatim>\<open>LCD_SET_CURSOR (0, c)\<close> transmits the single command
  \<open>c | 0x80\<close>, \<^verbatim>\<open>LCD_SET_CURSOR (1, c)\<close> the single command \<open>c | 0xC0\<close>, and for every
  other row the column is sent unchanged as the command. The column is an \<^verbatim>\<open>int\<close> and
  the command a \<^verbatim>\<open>char\<close>: the command is the low byte of the value.
\<close>

theorem C6_set_cursor:
  "LCD_SET_CURSOR 0 c w =
     ((), w\<lparr>trace := trace w @ [Transmit (command_tx (char_of_int (c OR 0x80)))]\<rparr>)
   \<and> LCD_SET_CURSOR 1 c w =
     ((), w\<lparr>trace := trace w @ [Transmit (command_tx (char_of_int (c OR 0xC0)))]\<rparr>)
   \<and> (row \<noteq> 0 \<and> row \<noteq> 1 \<longrightarrow> LCD_SET_CURSOR row c w =
     ((), w\<lparr>trace := trace w @ [Transmit (command_tx (char_of_int c))]\<rparr>))"
  by (simp add: LCD_SET_CURSOR_eq)

theorem C6_set_cursor_witness:
  "trace (snd (LCD_SET_CURSOR 0 5 w_ok)) = [Transmit (command_tx 0x85)]
   \<and> trace (snd (LCD_SET_CURSOR 1 5 w_ok)) = [Transmit (command_tx 0xC5)]
   \<and> (2 :: c_int) \<noteq> 0 \<and> (2 :: c_int) \<noteq> 1
   \<and> trace (snd (LCD_SET_CURSOR 2 5 w_ok)) = [Transmit (command_tx 0x05)]"
  using C6_set_cursor [of 5 w_ok 2] by (simp add: w_ok_def char_of_int_def)

text \<open>
  Claim C7. For an array that holds the characters \<open>cs\<close>, none of them null, then a null
  byte, then anything, \<^verbatim>\<open>LCD_SEND_STRING\<close> returns after exactly one data transmission
  per character of \<open>cs\<close>, in order; the null byte and what follows it are not sent. For
  \<^verbatim>\<open>"AB"\<close> these are the two data transmissions of 0x41 and 0x42.
\<close>

theorem C7_send_string:
  "(0 \<notin> set cs \<longrightarrow> LCD_SEND_STRING (cs @ 0 # rest) w =
      Some ((), w\<lparr>trace := trace w @ map (\<lambda>c. Transmit (data_tx c)) cs\<rparr>))
   \<and> LCD_SEND_STRING [0x41, 0x42, 0] w =
      Some ((), w\<lparr>trace := trace w @ [Transmit (data_tx 0x41), Transmit (data_tx 0x42)]\<rparr>)"
proof -
  have "(0 :: c_char) \<notin> set [0x41, 0x42]"
    by simp
  then have "LCD_SEND_STRING ([0x41, 0x42] @ 0 # []) w =
      Some ((), w\<lparr>trace := trace w @ map (\<lambda>c. Transmit (data_tx c)) [0x41, 0x42]\<rparr>)"
    by (rule LCD_SEND_STRING_eq)
  then show ?thesis
    by (simp add: LCD_SEND_STRING_eq)
qed

theorem C7_send_string_witness:
  "(0 :: c_char) \<notin> set [0x48, 0x69]
   \<and> map_option (trace \<circ> snd) (LCD_SEND_STRING [0x48, 0x69, 0, 0x21] w_ok)
       = Some [Transmit (data_tx 0x48), Transmit (data_tx 0x69)]"
  using C7_send_string [of "[0x48, 0x69]" "[0x21]" w_ok] by (simp add: w_ok_def)

text \<open>
  Claim C8. \<^verbatim>\<open>LCD_SCROLL_LEFT\<close> transmits exactly the one command 0x18 and
  \<^verbatim>\<open>LCD_SCROLL_RIGHT\<close> exactly the one command 0x1C. The world holds nothing of the
  driver's own: what is sent does not depend on the world, and the world changes by
  this one transmission only.
\<close>

theorem C8_scroll:
  "LCD_SCROLL_LEFT w = ((), w\<lparr>trace := trace w @ [Transmit (command_tx 0x18)]\<rparr>)
   \<and> LCD_SCROLL_RIGHT w = ((), w\<lparr>trace := trace w @ [Transmit (command_tx 0x1C)]\<rparr>)"
  by (simp add: LCD_SCROLL_eq)

section \<open>Properties of every operation\<close>

text \<open>
  Claim C9. Every transmission that a driver operation issues (\<^verbatim>\<open>LCD_SEND_CMD\<close>,
  \<^verbatim>\<open>LCD_SEND_DATA\<close>, \<^verbatim>\<open>LCD_CLEAR\<close>, \<^verbatim>\<open>LCD_SET_CURSOR\<close>, \<^verbatim>\<open>LCD_INIT\<close>,
  \<^verbatim>\<open>LCD_SEND_STRING\<close>, \<^verbatim>\<open>LCD_SCROLL_LEFT\<close>, \<^verbatim>\<open>LCD_SCROLL_RIGHT\<close>) goes to the address
  0x4E, has size 4 and a buffer of exactly four bytes, and is framed for some payload
  byte: upper nibble with the enable line high, upper nibble with the line low, lower
  nibble with the line high, lower nibble with the line low.
\<close>

theorem C9_every_transmission_framed:
  assumes "call op w = Some (r, w')" and "t \<in> set (transmissions (issued w w'))"
  shows "DevAddress t = 0x4E \<and> Size t = 4 \<and> length (pData t) = 4 \<and> (\<exists>b. framed t b)"
proof -
  from assms(1) obtain evs where w': "w' = w\<lparr>trace := trace w @ evs\<rparr>"
    and all: "list_all (\<lambda>t. \<exists>b. t = command_tx b \<or> t = data_tx b) (transmissions evs)"
    using call_issues by blast
  from assms(2) w' have "t \<in> set (transmissions evs)"
    by simp
  with all obtain b where "t = command_tx b \<or> t = data_tx b"
    by (auto simp add: list_all_iff)
  then show ?thesis
  proof
    assume t: "t = command_tx b"
    have "framed t b"
      unfolding t by (rule framed_command_tx)
    then show ?thesis
      by (auto simp add: t command_tx_def frame_def)
  next
    assume t: "t = data_tx b"
    have "framed t b"
      unfolding t by (rule framed_data_tx)
    then show ?thesis
      by (auto simp add: t data_tx_def frame_def)
  qed
qed

theorem C9_every_transmission_framed_witness:
  "call CLEAR w_ok = Some (LCD_CLEAR w_ok)
   \<and> data_tx 0x20 \<in> set (transmissions (issued w_ok (snd (LCD_CLEAR w_ok))))
   \<and> DevAddress (data_tx 0x20) = 0x4E \<and> Size (data_tx 0x20) = 4
   \<and> length (pData (data_tx 0x20)) = 4 \<and> (\<exists>b. framed (data_tx 0x20) b)"
proof -
  have c: "call CLEAR w_ok = Some ((), snd (LCD_CLEAR w_ok))"
    by (simp add: LCD_CLEAR_eq)
  have m: "data_tx 0x20 \<in> set (transmissions (issued w_ok (snd (LCD_CLEAR w_ok))))"
    by (simp add: LCD_CLEAR_eq transmissions_replicate)
  show ?thesis
    using C9_every_transmission_framed [OF c m] c m by simp
qed

text \<open>
  Claim C2. The claim has an operation report a failure of the bus to its caller. Every
  operation of the driver is \<^verbatim>\<open>void\<close> and drops the status that
  \<^verbatim>\<open>HAL_I2C_Master_Transmit\<close> returns. What holds instead: the driver never retries, and
  the result of an operation and the transmissions and waits it issues are the same
  whatever the bus answers, also after a failed transmission.
\<close>

theorem C2_status_discarded:
  "call op (w\<lparr>bus_status := f\<rparr>) =
     map_option (\<lambda>(r, w'). (r, w'\<lparr>bus_status := f\<rparr>)) (call op w)"
  by (cases op)
    (simp_all add: LCD_SEND_CMD_eq LCD_SEND_DATA_eq LCD_CLEAR_eq LCD_SET_CURSOR_eq LCD_INIT_eq
      LCD_SEND_STRING_bus LCD_SCROLL_eq)

theorem C2_status_discarded_witness:
  "map_option (\<lambda>(r, w'). (r, trace w')) (call CLEAR w_fail) =
     Some ((), Transmit (command_tx 0x80) # replicate 16 (Transmit (data_tx 0x20)))
   \<and> map_option (\<lambda>(r, w'). (r, trace w')) (call CLEAR w_ok) =
     Some ((), Transmit (command_tx 0x80) # replicate 16 (Transmit (data_tx 0x20)))"
proof -
  have "w_fail = w_ok\<lparr>bus_status := bus_fail_first\<rparr>"
    by (simp add: w_fail_def w_ok_def)
  then show ?thesis
    using C2_status_discarded [where op = CLEAR and w = w_ok and f = bus_fail_first]
    by (simp add: LCD_CLEAR_eq w_ok_def)
qed

text \<open>
  The claim fails at the command 0x01 on a bus that fails the first transmission: the bus
  answers \<^verbatim>\<open>HAL_ERROR\<close> to the one transmission that \<^verbatim>\<open>LCD_SEND_CMD\<close> issues, and
  \<^verbatim>\<open>LCD_SEND_CMD\<close> returns what it returns on a bus that answers \<^verbatim>\<open>HAL_OK\<close>.
\<close>

theorem C2_counterexample:
  "fst (HAL_I2C_Master_Transmit (ucast SLAVE_ADDRESS_LCD) (frame 0x0C 0x08 0x01)
         (ucast LCD_BUFFER_SIZE) TIMEOUT w_fail) = HAL_ERROR
   \<and> fst (HAL_I2C_Master_Transmit (ucast SLAVE_ADDRESS_LCD) (frame 0x0C 0x08 0x01)
         (ucast LCD_BUFFER_SIZE) TIMEOUT w_ok) = HAL_OK
   \<and> trace (snd (LCD_SEND_CMD 0x01 w_fail)) = [Transmit (command_tx 0x01)]
   \<and> fst (LCD_SEND_CMD 0x01 w_fail) = fst (LCD_SEND_CMD 0x01 w_ok)"
  by (simp add: HAL_I2C_Master_Transmit_def w_fail_def w_ok_def bus_fail_first_def bus_ok_def
      LCD_SEND_CMD_eq)

end
